theory Spec2Isabelle
  imports Main
begin

section \<open>Python primitives used by the widget helpers\<close>

text \<open>
  The module \<^verbatim>\<open>openbb_terminal/jupyter/widget_helpers.py\<close> builds HTML fragments by
  string formatting. Strings are \<^typ>\<open>string\<close>; a newline inside a triple-quoted
  literal is the character \<open>0x0A\<close>, a single quote is \<open>0x27\<close>.
\<close>

abbreviation nl :: string where
  "nl \<equiv> [CHR 0x0A]"

abbreviation sq :: string where
  "sq \<equiv> [CHR 0x27]"

text \<open>Python's \<^verbatim>\<open>str\<close> on an (unbounded) integer: its decimal digits, with a sign.\<close>

fun str_nat :: "nat \<Rightarrow> string" where
  "str_nat n =
     (if n < 10 then [''0123456789'' ! n]
      else str_nat (n div 10) @ [''0123456789'' ! (n mod 10)])"

declare str_nat.simps [simp del]

definition str :: "int \<Rightarrow> string" where
  "str i = (if i < 0 then ''-'' @ str_nat (nat (- i)) else str_nat (nat i))"

text \<open>
  Indexing a list raises \<^verbatim>\<open>IndexError\<close> out of range; an f-string evaluates its
  fields from left to right and the first field that raises ends the evaluation.
\<close>

datatype error = IndexError

definition getitem :: "'a list \<Rightarrow> nat \<Rightarrow> error + 'a" where
  "getitem xs i = (if i < length xs then Inr (xs ! i) else Inl IndexError)"

fun fstring :: "(error + string) list \<Rightarrow> error + string" where
  "fstring [] = Inr []"
| "fstring (Inl e # ps) = Inl e"
| "fstring (Inr s # ps) = (case fstring ps of Inl e \<Rightarrow> Inl e | Inr r \<Rightarrow> Inr (s @ r))"

section \<open>The helpers\<close>

subsection \<open>\<^verbatim>\<open>h\<close> and \<^verbatim>\<open>p\<close>\<close>

definition h :: "int \<Rightarrow> string \<Rightarrow> string" where
  "h level text = ''<h'' @ str level @ ''>'' @ text @ ''</h'' @ str level @ ''>''"

definition p :: "string \<Rightarrow> string" where
  "p text = ''<p>'' @ text @ ''</p>''"

subsection \<open>\<^verbatim>\<open>kpi\<close>\<close>

text \<open>
  The value and the thresholds are numbers of one linearly ordered type \<open>'a\<close>
  (Python's integers, or its floats without NaN); \<open>fmt\<close> is the text an f-string field
  gives such a number (\<^const>\<open>str\<close> for integers). The function prints its diagnostic
  to the standard output, which is threaded through as a list of lines; the result is
  the returned string, or the exception raised.
\<close>

definition kpi ::
  "('a::linorder \<Rightarrow> string) \<Rightarrow> 'a list \<Rightarrow> string list \<Rightarrow> 'a \<Rightarrow> string list
     \<Rightarrow> (error + string) \<times> string list" where
  \<open>kpi fmt thresholds sentences v out =
    (if length thresholds = 1 \<and> length sentences = 2 then
       (case getitem thresholds 0 of
          Inl e \<Rightarrow> (Inl e, out)
        | Inr t0 \<Rightarrow>
            if v < t0 then
              (fstring [Inr ''<p style="color:red">&#10060; '', getitem sentences 0,
                 Inr ''. '', Inr (fmt v), Inr '' < '', map_sum id fmt (getitem thresholds 0),
                 Inr '' </p>''], out)
            else
              (fstring [Inr ''<p style="color:green">&#x2705; '', getitem sentences 1,
                 Inr ''. '', Inr (fmt v), Inr '' > '', map_sum id fmt (getitem thresholds 0),
                 Inr '' </p>''], out))
     else if length thresholds = 2 \<and> length sentences = 3 then
       (case getitem thresholds 0 of
          Inl e \<Rightarrow> (Inl e, out)
        | Inr t0 \<Rightarrow>
            if v < t0 then
              (fstring [Inr ''<p style="color:red">&#10060; '', getitem sentences 0,
                 Inr ''. '', Inr (fmt v), Inr '' < '', map_sum id fmt (getitem thresholds 0),
                 Inr '' </p>''], out)
            else
              (case getitem thresholds 1 of
                 Inl e \<Rightarrow> (Inl e, out)
               | Inr t1 \<Rightarrow>
                   if v > t1 then
                     (fstring [Inr ''<p style="color:green">&#x2705; '', getitem sentences 2,
                        Inr ''. '', Inr (fmt v), Inr '' > '',
                        map_sum id fmt (getitem thresholds 1), Inr '' </p>''], out)
                   else
                     (fstring [Inr ''<p style="color:orange">&#128993; '', getitem sentences 1,
                        Inr ''. '', map_sum id fmt (getitem thresholds 0), Inr '' < '',
                        Inr (fmt v), Inr '' < '', map_sum id fmt (getitem thresholds 1),
                        Inr '' </p>''], out)))
     else (Inr [], out @ [''Error. KPI condition is not correctly set'']))\<close>

subsection \<open>\<^verbatim>\<open>add_tab\<close>, \<^verbatim>\<open>tab_clickable_evt\<close> and \<^verbatim>\<open>header\<close>\<close>

definition add_tab :: "string \<Rightarrow> string \<Rightarrow> string" where
  \<open>add_tab title htmlcode =
     ''<div id="'' @ title @ ''" class="tabcontent"></br>'' @ nl @
     ''        <p style="border:3px; border-style:solid;'' @ nl @
     ''            border-color:#000000; padding: 1em; width: 1050px;" contentEditable="true">'' @ nl @
     ''                No comment.'' @ nl @
     ''        </p>'' @ htmlcode @ nl @
     ''    </div>''\<close>

definition tab_clickable_evt :: "unit \<Rightarrow> string" where
  \<open>tab_clickable_evt u =
     nl @
     ''        <script>'' @ nl @
     ''        function menu(evt, menu_name) {'' @ nl @
     ''          var i, tabcontent, tablinks;'' @ nl @
     ''          tabcontent = document.getElementsByClassName("tabcontent");'' @ nl @
     ''          for (i = 0; i < tabcontent.length; i++) {'' @ nl @
     ''            tabcontent[i].style.display = "none";'' @ nl @
     ''          }'' @ nl @
     ''          tablinks = document.getElementsByClassName("tablinks");'' @ nl @
     ''          for (i = 0; i < tablinks.length; i++) {'' @ nl @
     ''            tablinks[i].className = tablinks[i].className.replace(" active", "");'' @ nl @
     ''            tablinks[i].style.backgroundColor = "white";'' @ nl @
     ''            tablinks[i].style.color = "black";'' @ nl @
     ''          }'' @ nl @
     ''          document.getElementById(menu_name).style.display = "block";'' @ nl @
     nl @
     ''          evt.currentTarget.className += " active";'' @ nl @
     ''          evt.currentTarget.style.backgroundColor = "black";'' @ nl @
     ''          evt.currentTarget.style.color = "white";'' @ nl @
     ''        }'' @ nl @
     nl @
     ''        window.onload=function(){'' @ nl @
     ''            menu(event, '' @ sq @ ''SUMMARY'' @ sq @ '');'' @ nl @
     ''        };'' @ nl @
     ''        </script>''\<close>

definition header ::
  "string \<Rightarrow> string \<Rightarrow> string \<Rightarrow> string \<Rightarrow> string \<Rightarrow> string \<Rightarrow> string" where
  \<open>header img author report_date report_time report_tz title =
     nl @
     ''        <div style="display:flex; margin-bottom:1cm;">'' @ nl @
     ''            '' @ img @ nl @
     ''            <div style="margin-left:2em">'' @ nl @
     ''                <p><b>Analyst:</b> '' @ author @ ''</p>'' @ nl @
     ''                <p><b>Date   :</b> '' @ report_date @ ''</p>'' @ nl @
     ''                <p><b>Time   :</b> '' @ report_time @ '' '' @ report_tz @ ''</p>'' @ nl @
     ''                <br/>'' @ nl @
     ''                <p>'' @ title @ ''</p>'' @ nl @
     ''            </div>'' @ nl @
     ''        </div>''\<close>

subsection \<open>\<^verbatim>\<open>tablinks\<close>\<close>

text \<open>
  The loop over \<^verbatim>\<open>enumerate(tabs)\<close> appends to the accumulator \<open>htmlcode\<close>: the
  button of the tab, then the line break when \<open>(idx + 1) % 5 == 0\<close>.
\<close>

fun tablinks_loop :: "(nat \<times> string) list \<Rightarrow> string \<Rightarrow> string" where
  "tablinks_loop [] htmlcode = htmlcode"
| \<open>tablinks_loop ((idx, tab) # rest) htmlcode =
     (let htmlcode = htmlcode @
            ''<button class="tablinks" onclick="menu(event, '' @ sq @ tab @ sq @ '')">'' @
            tab @ ''</button>'';
          htmlcode = (if (idx + 1) mod 5 = 0 then htmlcode @ ''</br>'' else htmlcode)
      in tablinks_loop rest htmlcode)\<close>

definition tablinks :: "string list \<Rightarrow> string" where
  \<open>tablinks tabs =
     (let htmlcode = ''<div class="tab">'';
          htmlcode = tablinks_loop (enumerate 0 tabs) htmlcode;
          htmlcode = htmlcode @ ''</div>''
      in htmlcode)\<close>

section \<open>Notions used to state the properties\<close>

text \<open>The fragments the properties speak of.\<close>

definition button :: "string \<Rightarrow> string" where
  \<open>button tab =
     ''<button class="tablinks" onclick="menu(event, '' @ sq @ tab @ sq @ '')">'' @
     tab @ ''</button>''\<close>

definition comment_block :: string where
  \<open>comment_block =
     ''</br>'' @ nl @
     ''        <p style="border:3px; border-style:solid;'' @ nl @
     ''            border-color:#000000; padding: 1em; width: 1050px;" contentEditable="true">'' @ nl @
     ''                No comment.'' @ nl @
     ''        </p>''\<close>

text \<open>
  What \<^verbatim>\<open>tablinks\<close> emits for the tab at (0-based) position \<open>idx\<close>: its button,
  followed by the line-break marker at the positions 4, 9, 14, ...
\<close>

definition piece :: "nat \<times> string \<Rightarrow> string" where
  "piece = (\<lambda>(idx, tab). button tab @ (if idx mod 5 = 4 then ''</br>'' else []))"


text \<open>
  \<open>starts_with pat s\<close>: the string \<open>s\<close> begins with \<open>pat\<close>;
  \<open>count_sub pat s\<close>: the number of positions of \<open>s\<close> at which \<open>pat\<close> occurs.
\<close>

fun starts_with :: "string \<Rightarrow> string \<Rightarrow> bool" where
  "starts_with [] s = True"
| "starts_with (c # cs) [] = False"
| "starts_with (c # cs) (d # ds) = (c = d \<and> starts_with cs ds)"

fun count_sub :: "string \<Rightarrow> string \<Rightarrow> nat" where
  "count_sub pat [] = (if pat = [] then 1 else 0)"
| "count_sub pat (c # cs) = (if starts_with pat (c # cs) then 1 else 0) + count_sub pat cs"

section \<open>Auxiliary facts\<close>

lemma tablinks_loop_pieces:
  "tablinks_loop its htmlcode = htmlcode @ concat (map piece its)"
proof (induction its arbitrary: htmlcode)
  case Nil
  then show ?case by simp
next
  case (Cons it its)
  obtain idx tab where it: "it = (idx, tab)" by (cases it)
  have m: "(Suc idx mod 5 = 0) = (idx mod 5 = 4)" by presburger
  show ?case
    by (simp add: it Cons.IH piece_def button_def m Let_def)
qed

lemma tablinks_pieces:
  \<open>tablinks tabs = ''<div class="tab">'' @ concat (map piece (enumerate 0 tabs)) @ ''</div>''\<close>
  by (simp add: tablinks_def tablinks_loop_pieces Let_def)

text \<open>A pattern that begins with \<open><\<close> does not occur inside a string without \<open><\<close>.\<close>

lemma count_sub_skip:
  "CHR ''<'' \<notin> set t \<Longrightarrow>
   count_sub (CHR ''<'' # pat) (t @ r) = count_sub (CHR ''<'' # pat) r"
  by (induction t) auto

lemma count_br_button:
  "CHR ''<'' \<notin> set t \<Longrightarrow> count_sub ''</br>'' (button t @ r) = count_sub ''</br>'' r"
  by (simp add: button_def count_sub_skip)

lemma count_btn_button:
  "CHR ''<'' \<notin> set t \<Longrightarrow>
   count_sub ''<button'' (button t @ r) = Suc (count_sub ''<button'' r)"
  by (simp add: button_def count_sub_skip)

lemma count_br_marker: "count_sub ''</br>'' (''</br>'' @ r) = Suc (count_sub ''</br>'' r)"
  by simp

lemma count_btn_marker: "count_sub ''<button'' (''</br>'' @ r) = count_sub ''<button'' r"
  by simp

lemma count_br_open:
  \<open>count_sub ''</br>'' (''<div class="tab">'' @ r) = count_sub ''</br>'' r\<close>
  by simp

lemma count_btn_open:
  \<open>count_sub ''<button'' (''<div class="tab">'' @ r) = count_sub ''<button'' r\<close>
  by simp

lemma div5_step: "Suc n div 5 = n div 5 + (if n mod 5 = 4 then 1 else 0)"
  by presburger

lemma count_br_pieces:
  "\<forall>t \<in> set tabs. CHR ''<'' \<notin> set t \<Longrightarrow>
   count_sub ''</br>'' (concat (map piece (enumerate 0 tabs)) @ r)
     = length tabs div 5 + count_sub ''</br>'' r"
proof (induction tabs arbitrary: r rule: rev_induct)
  case Nil
  then show ?case by simp
next
  case (snoc t tabs)
  have nt: "CHR ''<'' \<notin> set t" using snoc.prems by simp
  have "count_sub ''</br>'' (piece (length tabs, t) @ r)
        = (if length tabs mod 5 = 4 then 1 else 0) + count_sub ''</br>'' r"
    using count_br_button [OF nt] count_br_marker
    by (simp add: piece_def del: count_sub.simps)
  with snoc show ?case
    by (simp add: enumerate_append_eq div5_step del: count_sub.simps)
qed

lemma count_btn_pieces:
  "\<forall>t \<in> set tabs. CHR ''<'' \<notin> set t \<Longrightarrow>
   count_sub ''<button'' (concat (map piece (enumerate 0 tabs)) @ r)
     = length tabs + count_sub ''<button'' r"
proof (induction tabs arbitrary: r rule: rev_induct)
  case Nil
  then show ?case by simp
next
  case (snoc t tabs)
  have nt: "CHR ''<'' \<notin> set t" using snoc.prems by simp
  have "count_sub ''<button'' (piece (length tabs, t) @ r) = Suc (count_sub ''<button'' r)"
    using count_btn_button [OF nt] count_btn_marker
    by (simp add: piece_def del: count_sub.simps)
  with snoc show ?case
    by (simp add: enumerate_append_eq del: count_sub.simps)
qed

section \<open>Properties\<close>

text \<open>
  C6. For every level and every text, \<open>h level text\<close> is exactly \<open><h\<close>, the level,
  \<open>>\<close>, the text, \<open></h\<close>, the level, \<open>>\<close>; the level is not checked (any integer
  is accepted); and \<open>h 3 "x"\<close> is \<open><h3>x</h3>\<close>.
\<close>

theorem h_wraps_text:
  "h level text = concat [''<h'', str level, ''>'', text, ''</h'', str level, ''>'']
   \<and> h 3 ''x'' = ''<h3>x</h3>''
   \<and> h 0 ''x'' = ''<h0>x</h0>''
   \<and> h (- 12) ''x'' = ''<h-12>x</h-12>''"
  by (simp add: h_def str_def str_nat.simps)

text \<open>
  C1. With two thresholds \<open>[t0, t1]\<close> and three sentences \<open>[s0, s1, s2]\<close>, \<open>kpi\<close>
  returns, for every value \<open>v\<close>: the red paragraph with sentence \<open>s0\<close> if \<open>v < t0\<close>;
  otherwise the green paragraph with sentence \<open>s2\<close> if \<open>v > t1\<close>; otherwise the orange
  paragraph with sentence \<open>s1\<close>. Nothing is printed. In particular
  \<open>kpi([5,10], ["a","b","c"], 7)\<close> is the orange message with \<open>b\<close>.
\<close>

theorem kpi_two_thresholds:
  \<open>kpi fmt [t0, t1] [s0, s1, s2] v out =
     (Inr (if v < t0 then
             ''<p style="color:red">&#10060; '' @ s0 @ ''. '' @ fmt v @ '' < '' @ fmt t0 @ '' </p>''
           else if v > t1 then
             ''<p style="color:green">&#x2705; '' @ s2 @ ''. '' @ fmt v @ '' > '' @ fmt t1 @ '' </p>''
           else
             ''<p style="color:orange">&#128993; '' @ s1 @ ''. '' @ fmt t0 @ '' < '' @ fmt v @
             '' < '' @ fmt t1 @ '' </p>''), out)
   \<and> kpi str [5, 10] [''a'', ''b'', ''c''] 7 out =
       (Inr ''<p style="color:orange">&#128993; b. 5 < 7 < 10 </p>'', out)\<close>
  by (simp add: kpi_def getitem_def str_def str_nat.simps)

text \<open>
  C3. With one threshold \<open>[t0]\<close> and two sentences \<open>[s0, s1]\<close>, \<open>kpi\<close> returns the red
  failure paragraph with sentence \<open>s0\<close>, showing \<open>v < t0\<close>, when \<open>v < t0\<close>, and
  otherwise the green success paragraph with sentence \<open>s1\<close>, showing \<open>v > t0\<close>.
  \<open>kpi([10], ["low","high"], 5)\<close> is the red message showing \<open>5 < 10\<close> and
  \<open>kpi([10], ["low","high"], 15)\<close> the green one showing \<open>15 > 10\<close>.
\<close>

theorem kpi_one_threshold:
  \<open>kpi fmt [t0] [s0, s1] v out =
     (Inr (if v < t0 then
             ''<p style="color:red">&#10060; '' @ s0 @ ''. '' @ fmt v @ '' < '' @ fmt t0 @ '' </p>''
           else
             ''<p style="color:green">&#x2705; '' @ s1 @ ''. '' @ fmt v @ '' > '' @ fmt t0 @ '' </p>''),
      out)
   \<and> kpi str [10] [''low'', ''high''] 5 out =
       (Inr ''<p style="color:red">&#10060; low. 5 < 10 </p>'', out)
   \<and> kpi str [10] [''low'', ''high''] 15 out =
       (Inr ''<p style="color:green">&#x2705; high. 15 > 10 </p>'', out)\<close>
  by (simp add: kpi_def getitem_def str_def str_nat.simps)

text \<open>
  C4. For every pair of list lengths other than (1 threshold, 2 sentences) and
  (2 thresholds, 3 sentences), and every value, \<open>kpi\<close> prints its diagnostic and
  returns the empty string; it raises no exception (the result is \<open>Inr\<close>).
  For example \<open>kpi([1,2], ["a"], v)\<close> is the empty string for every \<open>v\<close>.
\<close>

theorem kpi_unsupported_shape:
  assumes "(length thresholds, length sentences) \<notin> {(1, 2), (2, 3)}"
  shows "kpi fmt thresholds sentences v out =
           (Inr [], out @ [''Error. KPI condition is not correctly set''])"
  using assms by (auto simp add: kpi_def)

theorem kpi_unsupported_shape_witness:
  "\<forall>v::int. kpi str [1, 2] [''a''] v [] =
      (Inr [], [''Error. KPI condition is not correctly set''])"
  using kpi_unsupported_shape [of "[1, 2::int]" "[''a'']" str _ "[]"] by simp

text \<open>
  C2 (as amended). The comparisons of \<open>kpi\<close> are strict. With one threshold, a value
  equal to the threshold takes the else branch: the green paragraph with sentence 1;
  \<open>kpi([10], ["low","high"], 10)\<close> is the green message with \<open>high\<close>. With two
  thresholds in ascending order, \<open>thresholds[0] \<le> thresholds[1]\<close>, a value equal to
  \<open>thresholds[0]\<close> or to \<open>thresholds[1]\<close> takes the orange middle branch.
  Without the order the last part fails, as the closed instance after the theorem
  shows: there the value equal to \<open>thresholds[0]\<close> is above \<open>thresholds[1]\<close> and the result is green.
\<close>

theorem kpi_boundary_strict:
  \<open>kpi fmt [t] [s0, s1] t out =
     (Inr (''<p style="color:green">&#x2705; '' @ s1 @ ''. '' @ fmt t @ '' > '' @ fmt t @ '' </p>''),
      out)
   \<and> kpi str [10] [''low'', ''high''] 10 out =
       (Inr ''<p style="color:green">&#x2705; high. 10 > 10 </p>'', out)
   \<and> (t0 \<le> t1 \<longrightarrow>
         kpi fmt [t0, t1] [s0, s1, s2] t0 out =
           (Inr (''<p style="color:orange">&#128993; '' @ s1 @ ''. '' @ fmt t0 @ '' < '' @ fmt t0 @
                 '' < '' @ fmt t1 @ '' </p>''), out)
       \<and> kpi fmt [t0, t1] [s0, s1, s2] t1 out =
           (Inr (''<p style="color:orange">&#128993; '' @ s1 @ ''. '' @ fmt t0 @ '' < '' @ fmt t1 @
                 '' < '' @ fmt t1 @ '' </p>''), out))\<close>
  by (auto simp add: kpi_def getitem_def str_def str_nat.simps)

theorem kpi_boundary_strict_witness:
  \<open>(5::int) \<le> 10
   \<and> kpi str [5, 10] [''a'', ''b'', ''c''] 5 [] =
       (Inr ''<p style="color:orange">&#128993; b. 5 < 5 < 10 </p>'', [])
   \<and> kpi str [5, 10] [''a'', ''b'', ''c''] 10 [] =
       (Inr ''<p style="color:orange">&#128993; b. 5 < 10 < 10 </p>'', [])\<close>
  using kpi_boundary_strict [where fmt = str and t = 10 and ?t0.0 = 5 and ?t1.0 = 10
      and ?s0.0 = "''a''" and ?s1.0 = "''b''" and ?s2.0 = "''c''" and out = "[]"]
  by (simp add: str_def str_nat.simps)

theorem kpi_boundary_descending:
  \<open>kpi str [10, 5] [''a'', ''b'', ''c''] 10 [] =
     (Inr ''<p style="color:green">&#x2705; c. 10 > 5 </p>'', [])
   \<and> kpi str [10, 5] [''a'', ''b'', ''c''] 10 [] \<noteq>
     (Inr ''<p style="color:orange">&#128993; b. 10 < 10 < 5 </p>'', [])\<close>
  by (simp add: kpi_def getitem_def str_def str_nat.simps)

text \<open>
  C10 (as amended). With two thresholds in ascending order,
  \<open>thresholds[0] \<le> thresholds[1]\<close>, for a value equal to \<open>thresholds[0]\<close> (or to
  \<open>thresholds[1]\<close>) \<open>kpi\<close> returns the orange string, whose text displays the chain
  \<open>thresholds[0] < value < thresholds[1]\<close> although that strict chain is false for
  the value; \<open>kpi([5,10], ["a","b","c"], 5)\<close> contains \<open>5 < 5 < 10\<close>.
  Without the order this fails, as the closed instance after the theorem shows: there
  the value equal to \<open>thresholds[1]\<close> is below \<open>thresholds[0]\<close> and the result is the red string.
\<close>

theorem kpi_boundary_text:
  assumes "t0 \<le> t1"
  shows \<open>fst (kpi fmt [t0, t1] [s0, s1, s2] t0 out) =
           Inr (''<p style="color:orange">&#128993; '' @ s1 @ ''. '' @
                fmt t0 @ '' < '' @ fmt t0 @ '' < '' @ fmt t1 @ '' </p>'')
       \<and> fst (kpi fmt [t0, t1] [s0, s1, s2] t1 out) =
           Inr (''<p style="color:orange">&#128993; '' @ s1 @ ''. '' @
                fmt t0 @ '' < '' @ fmt t1 @ '' < '' @ fmt t1 @ '' </p>'')
       \<and> \<not> (t0 < t0 \<and> t0 < t1) \<and> \<not> (t0 < t1 \<and> t1 < t1)
       \<and> fst (kpi str [5, 10] [''a'', ''b'', ''c''] 5 out) =
           Inr ''<p style="color:orange">&#128993; b. 5 < 5 < 10 </p>''\<close>
  using assms by (auto simp add: kpi_def getitem_def str_def str_nat.simps)

theorem kpi_boundary_text_witness:
  \<open>(5::int) \<le> 10
   \<and> fst (kpi str [5, 10] [''a'', ''b'', ''c''] 5 []) =
     Inr ''<p style="color:orange">&#128993; b. 5 < 5 < 10 </p>''
   \<and> fst (kpi str [5, 10] [''a'', ''b'', ''c''] 10 []) =
     Inr ''<p style="color:orange">&#128993; b. 5 < 10 < 10 </p>''
   \<and> \<not> ((5::int) < 5 \<and> (5::int) < 10)\<close>
  using kpi_boundary_text [where fmt = str and ?t0.0 = 5 and ?t1.0 = 10
      and ?s0.0 = "''a''" and ?s1.0 = "''b''" and ?s2.0 = "''c''" and out = "[]"]
  by (simp add: str_def str_nat.simps)

theorem kpi_boundary_text_descending:
  \<open>kpi str [10, 5] [''a'', ''b'', ''c''] 5 [] =
     (Inr ''<p style="color:red">&#10060; a. 5 < 10 </p>'', [])
   \<and> kpi str [10, 5] [''a'', ''b'', ''c''] 5 [] \<noteq>
     (Inr ''<p style="color:orange">&#128993; b. 10 < 5 < 5 </p>'', [])\<close>
  by (simp add: kpi_def getitem_def str_def str_nat.simps)


text \<open>
  C5. \<open>tablinks\<close> emits, between the opening and the closing of the tab container,
  one button per title, in input order, whose \<open>onclick\<close> calls \<open>menu\<close> with the title
  as target id, and a line-break marker after every 5th button (the 0-based positions
  4, 9, 14, ...). \<open>tablinks(["A","B","C","D","E","F"])\<close> contains exactly one marker,
  right after the 5th button.
\<close>

theorem tablinks_buttons_and_breaks:
  \<open>tablinks tabs =
     ''<div class="tab">'' @
     concat (map (\<lambda>(idx, tab).
        (''<button class="tablinks" onclick="menu(event, '' @ sq @ tab @ sq @ '')">'' @ tab @
         ''</button>'') @ (if idx mod 5 = 4 then ''</br>'' else [])) (enumerate 0 tabs)) @
     ''</div>''
   \<and> map snd (enumerate 0 tabs) = tabs
   \<and> tablinks [''A'', ''B'', ''C'', ''D'', ''E'', ''F''] =
       ''<div class="tab">'' @ button ''A'' @ button ''B'' @ button ''C'' @ button ''D'' @
       button ''E'' @ ''</br>'' @ button ''F'' @ ''</div>''
   \<and> count_sub ''</br>'' (tablinks [''A'', ''B'', ''C'', ''D'', ''E'', ''F'']) = 1\<close>
proof (intro conjI)
  show \<open>tablinks tabs =
     ''<div class="tab">'' @
     concat (map (\<lambda>(idx, tab).
        (''<button class="tablinks" onclick="menu(event, '' @ sq @ tab @ sq @ '')">'' @ tab @
         ''</button>'') @ (if idx mod 5 = 4 then ''</br>'' else [])) (enumerate 0 tabs)) @
     ''</div>''\<close>
    using tablinks_pieces [of tabs] by (simp only: piece_def button_def)
  show "map snd (enumerate 0 tabs) = tabs"
    by (simp add: enumerate_eq_zip)
  show \<open>tablinks [''A'', ''B'', ''C'', ''D'', ''E'', ''F''] =
       ''<div class="tab">'' @ button ''A'' @ button ''B'' @ button ''C'' @ button ''D'' @
       button ''E'' @ ''</br>'' @ button ''F'' @ ''</div>''\<close>
    by (simp add: tablinks_def button_def)
  show "count_sub ''</br>'' (tablinks [''A'', ''B'', ''C'', ''D'', ''E'', ''F'']) = 1"
    by (simp add: tablinks_def)
qed

text \<open>
  C9 (as amended). For every list of tab titles none of which contains the character
  \<open><\<close>, the string returned by \<open>tablinks\<close> contains exactly \<open>floor(n/5)\<close> line-break
  markers \<open></br>\<close> and exactly \<open>n\<close> button openings \<open><button\<close>, for \<open>n\<close> titles;
  and \<open>tablinks([])\<close> is exactly the empty tab container. A title is copied into the
  output as it is, so without the restriction the count fails, as the
  closed instance after the theorem shows: there the one title is itself \<open></br>\<close>.
\<close>

theorem tablinks_counts:
  assumes "\<forall>t \<in> set tabs. CHR ''<'' \<notin> set t"
  shows \<open>count_sub ''</br>'' (tablinks tabs) = length tabs div 5
       \<and> count_sub ''<button'' (tablinks tabs) = length tabs
       \<and> tablinks [] = ''<div class="tab"></div>''\<close>
proof (intro conjI)
  show "count_sub ''</br>'' (tablinks tabs) = length tabs div 5"
    unfolding tablinks_pieces count_br_open count_br_pieces [OF assms] by simp
  show "count_sub ''<button'' (tablinks tabs) = length tabs"
    unfolding tablinks_pieces count_btn_open count_btn_pieces [OF assms] by simp
  show \<open>tablinks [] = ''<div class="tab"></div>''\<close>
    by (simp add: tablinks_def)
qed

theorem tablinks_counts_witness:
  "list_all (\<lambda>t. CHR ''<'' \<notin> set t) [''A'', ''B'', ''C'', ''D'', ''E'', ''F'', ''G'']
   \<and> count_sub ''</br>'' (tablinks [''A'', ''B'', ''C'', ''D'', ''E'', ''F'', ''G'']) = 1
   \<and> count_sub ''<button'' (tablinks [''A'', ''B'', ''C'', ''D'', ''E'', ''F'', ''G'']) = 7"
  using tablinks_counts [of "[''A'', ''B'', ''C'', ''D'', ''E'', ''F'', ''G'']"] by simp

theorem tablinks_title_with_marker:
  \<open>tablinks [''</br>''] =
     ''<div class="tab"><button class="tablinks" onclick="menu(event, '' @ sq @ ''</br>'' @ sq @
     '')"></br></button></div>''
   \<and> count_sub ''</br>'' (tablinks [''</br>'']) = 2
   \<and> length [''</br>''] div 5 = 0\<close>
  by (simp add: tablinks_def)

text \<open>
  C7. For every title and every inner HTML string, \<open>add_tab\<close> returns a \<open>div\<close> whose
  \<open>id\<close> attribute is the title and whose class is \<open>tabcontent\<close>, containing the fixed
  comment block (a paragraph with \<open>contentEditable="true"\<close> and the text
  \<open>No comment.\<close>) followed by the inner HTML; title and inner HTML are copied unchanged.
\<close>

theorem add_tab_wraps:
  \<open>add_tab title htmlcode =
     ''<div id="'' @ title @ ''" class="tabcontent">'' @ comment_block @ htmlcode @ nl @
     ''    </div>''
   \<and> count_sub ''contentEditable="true"'' comment_block = 1
   \<and> count_sub ''No comment.'' comment_block = 1\<close>
  by (simp add: add_tab_def comment_block_def)

end
